theory Spec2Isabelle
  imports Complex_Main "HOL-Library.AList"
begin

section \<open>Python values\<close>

text \<open>
  The SDK passes every entity around as a Python dictionary (\<^verbatim>\<open>Dict[str, Any]\<close>)
  that is later serialised with \<^verbatim>\<open>json.dumps\<close>. A value is therefore one of the JSON
  shapes. A string is the list of its characters, so \<open>length\<close> is Python's \<^verbatim>\<open>len\<close>.
  A dictionary is an association list in insertion order, with string keys; a lookup
  finds the first entry of a key.
\<close>

datatype pyval =
    PNone
  | PBool bool
  | PInt int
  | PFloat real
  | PStr string
  | PList "pyval list"
  | PDict "(string \<times> pyval) list"

type_synonym pydict = "(string \<times> pyval) list"

text \<open>Python's truth value of an object, as used by \<^verbatim>\<open>not x\<close> and \<^verbatim>\<open>if x\<close>.\<close>

fun truthy :: "pyval \<Rightarrow> bool" where
  "truthy PNone = False"
| "truthy (PBool b) = b"
| "truthy (PInt i) = (i \<noteq> 0)"
| "truthy (PFloat r) = (r \<noteq> 0)"
| "truthy (PStr s) = (s \<noteq> [])"
| "truthy (PList xs) = (xs \<noteq> [])"
| "truthy (PDict d) = (d \<noteq> [])"

text \<open>\<^verbatim>\<open>isinstance(v, str)\<close>, \<^verbatim>\<open>isinstance(v, list)\<close>.\<close>

fun isinstance_str :: "pyval \<Rightarrow> bool" where
  "isinstance_str (PStr s) = True"
| "isinstance_str v = False"

fun isinstance_list :: "pyval \<Rightarrow> bool" where
  "isinstance_list (PList xs) = True"
| "isinstance_list v = False"

text \<open>\<^verbatim>\<open>d.get(k)\<close>, \<^verbatim>\<open>d.get(k, default)\<close>, \<^verbatim>\<open>k in d\<close> and \<^verbatim>\<open>d[k] = v\<close>.\<close>

definition dict_get :: "pydict \<Rightarrow> string \<Rightarrow> pyval" where
  "dict_get d k = (case map_of d k of None \<Rightarrow> PNone | Some v \<Rightarrow> v)"

definition dict_get_default :: "pydict \<Rightarrow> string \<Rightarrow> pyval \<Rightarrow> pyval" where
  "dict_get_default d k dflt = (case map_of d k of None \<Rightarrow> dflt | Some v \<Rightarrow> v)"

definition dict_contains :: "string \<Rightarrow> pydict \<Rightarrow> bool" where
  "dict_contains k d = (k \<in> set (map fst d))"

definition dict_set :: "pydict \<Rightarrow> string \<Rightarrow> pyval \<Rightarrow> pydict" where
  "dict_set d k v = AList.update k v d"

text \<open>\<^verbatim>\<open>if k not in d: d[k] = v\<close>, the statement that fills a default in.\<close>

definition assign_if_absent :: "pydict \<Rightarrow> string \<Rightarrow> pyval \<Rightarrow> pydict" where
  "assign_if_absent d k v = (if \<not> dict_contains k d then dict_set d k v else d)"

section \<open>Errors\<close>

text \<open>
  Every exception the modelled code can raise is a value. \<open>ValueError\<close> is what the
  validators and \<^verbatim>\<open>_request\<close> raise; \<open>TypeError\<close> is what \<^verbatim>\<open>len\<close> raises on an
  object without a length; \<open>APIError\<close> is the plain \<^verbatim>\<open>Exception\<close> raised for a
  response status of 400 or more; \<open>TransportError\<close> and \<open>JSONDecodeError\<close> are what
  the HTTP library may raise while sending and decoding.
\<close>

datatype error =
    ValueError string
  | TypeError string
  | APIError string
  | TransportError string
  | JSONDecodeError

text \<open>\<^verbatim>\<open>len(v)\<close>: defined on strings, lists and dictionaries only.\<close>

fun py_len :: "pyval \<Rightarrow> error + nat" where
  "py_len (PStr s) = Inr (length s)"
| "py_len (PList xs) = Inr (length xs)"
| "py_len (PDict d) = Inr (length d)"
| "py_len v = Inl (TypeError ''object has no len()'')"

text \<open>
  \<^verbatim>\<open>a or b\<close> where \<open>b\<close> may raise: \<open>b\<close> is evaluated only when \<open>a\<close> is false.
\<close>

definition or_else :: "bool \<Rightarrow> error + bool \<Rightarrow> error + bool" where
  "or_else a b = (if a then Inr True else b)"

text \<open>\<^verbatim>\<open>len(v) < n\<close> and \<^verbatim>\<open>len(v) == 0\<close>.\<close>

definition len_less :: "pyval \<Rightarrow> nat \<Rightarrow> error + bool" where
  "len_less v n = (case py_len v of Inl e \<Rightarrow> Inl e | Inr m \<Rightarrow> Inr (m < n))"

definition len_is_zero :: "pyval \<Rightarrow> error + bool" where
  "len_is_zero v = (case py_len v of Inl e \<Rightarrow> Inl e | Inr m \<Rightarrow> Inr (m = 0))"

text \<open>
  \<^verbatim>\<open>if cond: raise e\<close> followed by the rest of the function body. An exception raised
  while evaluating the condition propagates.
\<close>

definition raise_if :: "error + bool \<Rightarrow> error \<Rightarrow> error + unit \<Rightarrow> error + unit" where
  "raise_if cond e rest =
     (case cond of Inl x \<Rightarrow> Inl x | Inr b \<Rightarrow> if b then Inl e else rest)"

text \<open>
  \<^verbatim>\<open>not isinstance(v, dict) or not v.get("id")\<close>, the test applied to initiator,
  proposer, submitter and reviewer; and the same test on a timeline's
  \<^verbatim>\<open>estimated_completion\<close>.
\<close>

fun not_dict_or_falsy :: "pyval \<Rightarrow> string \<Rightarrow> bool" where
  "not_dict_or_falsy (PDict d) k = (\<not> truthy (dict_get d k))"
| "not_dict_or_falsy v k = True"

section \<open>The validators (validator.py)\<close>

definition validate_task :: "pydict \<Rightarrow> error + unit" where
  "validate_task task =
     raise_if (Inr (\<not> isinstance_str (dict_get task ''id'') \<or> \<not> truthy (dict_get task ''id'')))
       (ValueError ''Task must have a valid id'')
    (raise_if (or_else (\<not> isinstance_str (dict_get task ''title''))
                 (len_less (dict_get_default task ''title'' (PStr '''')) 3))
       (ValueError ''Task title must be at least 3 characters'')
    (raise_if (or_else (\<not> isinstance_str (dict_get task ''objective''))
                 (len_less (dict_get_default task ''objective'' (PStr '''')) 10))
       (ValueError ''Task objective must be at least 10 characters'')
    (raise_if (Inr (not_dict_or_falsy (dict_get task ''initiator'') ''id''))
       (ValueError ''Task must have a valid initiator'')
    (Inr ()))))"

definition validate_proposal :: "pydict \<Rightarrow> error + unit" where
  "validate_proposal proposal =
     raise_if (Inr (\<not> isinstance_str (dict_get proposal ''id'') \<or> \<not> truthy (dict_get proposal ''id'')))
       (ValueError ''Proposal must have a valid id'')
    (raise_if (Inr (\<not> truthy (dict_get proposal ''task_id'') \<and> \<not> truthy (dict_get proposal ''taskId'')))
       (ValueError ''Proposal must reference a task'')
    (raise_if (Inr (not_dict_or_falsy (dict_get proposal ''proposer'') ''id''))
       (ValueError ''Proposal must have a valid proposer'')
    (raise_if (or_else (\<not> isinstance_str (dict_get_default proposal ''approach'' (PStr '''')))
                 (len_less (dict_get_default proposal ''approach'' (PStr '''')) 20))
       (ValueError ''Proposal approach must be at least 20 characters'')
    (raise_if (Inr (not_dict_or_falsy (dict_get proposal ''timeline'') ''estimated_completion''))
       (ValueError ''Proposal must have an estimated completion date'')
    (Inr ())))))"

text \<open>
  In \<^verbatim>\<open>validate_deliverable\<close> the evidence is first tested for being a dictionary and
  its \<^verbatim>\<open>items\<close> are read only afterwards.
\<close>

fun evidence_checks :: "pyval \<Rightarrow> error + unit" where
  "evidence_checks (PDict evidence) =
     raise_if (or_else (\<not> isinstance_list (dict_get_default evidence ''items'' (PList [])))
                 (len_is_zero (dict_get_default evidence ''items'' (PList []))))
       (ValueError ''Deliverable must have at least one evidence item'')
    (Inr ())"
| "evidence_checks v = Inl (ValueError ''Deliverable must have evidence data'')"

definition validate_deliverable :: "pydict \<Rightarrow> error + unit" where
  "validate_deliverable deliverable =
     raise_if (Inr (\<not> isinstance_str (dict_get deliverable ''id'') \<or> \<not> truthy (dict_get deliverable ''id'')))
       (ValueError ''Deliverable must have a valid id'')
    (raise_if (Inr (\<not> truthy (dict_get deliverable ''task_id'')))
       (ValueError ''Deliverable must reference a task'')
    (raise_if (Inr (\<not> truthy (dict_get deliverable ''contract_id'')))
       (ValueError ''Deliverable must reference a contract'')
    (raise_if (Inr (not_dict_or_falsy (dict_get deliverable ''submitter'') ''id''))
       (ValueError ''Deliverable must have a valid submitter'')
    (raise_if (or_else (\<not> isinstance_list (dict_get_default deliverable ''artifacts'' (PList [])))
                 (len_is_zero (dict_get_default deliverable ''artifacts'' (PList []))))
       (ValueError ''Deliverable must have at least one artifact'')
    (evidence_checks (dict_get deliverable ''evidence''))))))"

definition validate_review :: "pydict \<Rightarrow> error + unit" where
  "validate_review review =
     raise_if (Inr (\<not> isinstance_str (dict_get review ''id'') \<or> \<not> truthy (dict_get review ''id'')))
       (ValueError ''Review must have a valid id'')
    (raise_if (Inr (\<not> truthy (dict_get review ''deliverable_id'')))
       (ValueError ''Review must reference a deliverable'')
    (raise_if (Inr (not_dict_or_falsy (dict_get review ''reviewer'') ''id''))
       (ValueError ''Review must have a valid reviewer'')
    (raise_if (Inr (\<not> truthy (dict_get review ''decision'')))
       (ValueError ''Review must have a decision'')
    (Inr ()))))"

section \<open>Strings\<close>

text \<open>
  \<^verbatim>\<open>str(n)\<close> for an integer, as an f-string renders it. \<open>digit_char\<close> is applied
  to numbers below ten only.
\<close>

definition digit_char :: "nat \<Rightarrow> char" where
  "digit_char d = ''0123456789'' ! d"

function str_nat :: "nat \<Rightarrow> string" where
  "str_nat n = (if n < 10 then [digit_char n] else str_nat (n div 10) @ [digit_char (n mod 10)])"
  by pat_completeness auto
termination
  by (relation "measure (\<lambda>n. n)") auto

declare str_nat.simps [simp del]

definition str_int :: "int \<Rightarrow> string" where
  "str_int i = (if i < 0 then CHR ''-'' # str_nat (nat (- i)) else str_nat (nat i))"

text \<open>
  The constants of the \<^verbatim>\<open>string\<close> module, \<^verbatim>\<open>s.upper()\<close> on ASCII text and
  \<^verbatim>\<open>s.rstrip("/")\<close>.
\<close>

definition ascii_lowercase :: string where
  "ascii_lowercase = ''abcdefghijklmnopqrstuvwxyz''"

definition ascii_uppercase :: string where
  "ascii_uppercase = ''ABCDEFGHIJKLMNOPQRSTUVWXYZ''"

definition digits :: string where
  "digits = ''0123456789''"

definition upper_char :: "char \<Rightarrow> char" where
  "upper_char c =
     (case map_of (zip ascii_lowercase ascii_uppercase) c of None \<Rightarrow> c | Some u \<Rightarrow> u)"

definition upper :: "string \<Rightarrow> string" where
  "upper s = map upper_char s"

definition rstrip_slash :: "string \<Rightarrow> string" where
  "rstrip_slash s = rev (dropWhile (\<lambda>c. c = CHR ''/'') (rev s))"

section \<open>The client (client.py)\<close>

text \<open>
  The client object holds three fields. The constructor raises \<^verbatim>\<open>ImportError\<close> when
  the HTTP library is missing; a client value in this theory is one that was constructed.
\<close>

record client =
  base_url :: string
  api_key :: "string option"
  validate_schemas :: bool

definition OHAPClient :: "string \<Rightarrow> string option \<Rightarrow> bool \<Rightarrow> client" where
  "OHAPClient url key validate =
     \<lparr>base_url = rstrip_slash url, api_key = key, validate_schemas = validate\<rparr>"

text \<open>
  What an operation reads from the system while it runs: the clock as
  \<^verbatim>\<open>int(time.time() * 1000)\<close>, the random index drawn for each position of the
  identifier's suffix (\<^verbatim>\<open>random.choices\<close> draws an index below the size of the
  population, hence the \<open>mod\<close> in \<open>random_part\<close>), and
  \<^verbatim>\<open>datetime.utcnow().isoformat()\<close>.
\<close>

record env =
  time_ms :: int
  rand_index :: "nat \<Rightarrow> nat"
  utcnow_isoformat :: string

definition random_part :: "env \<Rightarrow> string" where
  "random_part e =
     map (\<lambda>i. (ascii_lowercase @ digits) ! (rand_index e i mod length (ascii_lowercase @ digits)))
       [0..<9]"

definition generate_id :: "env \<Rightarrow> string \<Rightarrow> string" where
  "generate_id e prefix = prefix @ ''-'' @ str_int (time_ms e) @ ''-'' @ random_part e"

definition now :: "env \<Rightarrow> string" where
  "now e = utcnow_isoformat e @ ''Z''"

text \<open>
  The Gateway is whatever answers an HTTP call: a response, or an exception of the HTTP
  library. The body of a call is the dictionary handed to \<^verbatim>\<open>json.dumps\<close>;
  \<open>json_data\<close> is what \<^verbatim>\<open>response.json()\<close> decodes, \<open>None\<close> when it cannot.
\<close>

record http_call =
  verb :: string
  url :: string
  headers :: "(string \<times> string) list"
  content :: "pydict option"

record response =
  status_code :: int
  text_of :: string
  json_data :: "pyval option"

type_synonym gateway = "http_call \<Rightarrow> error + response"

text \<open>
  The part of \<^verbatim>\<open>_request\<close> after the call was sent. The second component of every
  result is the trace of the calls that were sent to the Gateway, oldest first.
\<close>

definition handle_response :: "gateway \<Rightarrow> http_call \<Rightarrow> (error + pyval) \<times> http_call list" where
  "handle_response gw call =
     (case gw call of
        Inl e \<Rightarrow> (Inl e, [call])
      | Inr resp \<Rightarrow>
          if status_code resp \<ge> 400
          then (Inl (APIError (''OHAP API error: '' @ str_int (status_code resp) @ '' '' @ text_of resp)), [call])
          else (case json_data resp of
                  None \<Rightarrow> (Inl JSONDecodeError, [call])
                | Some data \<Rightarrow> (Inr data, [call])))"

definition request :: "client \<Rightarrow> gateway \<Rightarrow> string \<Rightarrow> string \<Rightarrow> pydict option
    \<Rightarrow> (error + pyval) \<times> http_call list" where
  "request self gw method path body =
     (let target = base_url self @ path;
          hdrs = [(''Content-Type'', ''application/json'')] @
                 (case api_key self of
                    None \<Rightarrow> []
                  | Some k \<Rightarrow> if k \<noteq> [] then [(''Authorization'', ''Bearer '' @ k)] else []);
          payload = (case body of None \<Rightarrow> None | Some b \<Rightarrow> if b \<noteq> [] then Some b else None)
      in if upper method = ''GET''
         then handle_response gw \<lparr>verb = ''GET'', url = target, headers = hdrs, content = None\<rparr>
         else if upper method = ''POST''
         then handle_response gw \<lparr>verb = ''POST'', url = target, headers = hdrs, content = payload\<rparr>
         else if upper method = ''PATCH''
         then handle_response gw \<lparr>verb = ''PATCH'', url = target, headers = hdrs, content = payload\<rparr>
         else (Inl (ValueError (''Unsupported method: '' @ method)), []))"

text \<open>
  A workflow operation receives the caller's dictionary by reference and assigns to it.
  Its outcome is the value returned or the exception raised, the caller's dictionary as
  it is after the call, and the trace of calls sent to the Gateway.
\<close>

record outcome =
  result :: "error + pyval"
  candidate :: pydict
  requests :: "http_call list"

text \<open>
  The last statement of each operation, \<^verbatim>\<open>return await self._request("POST", path, entity, Model)\<close>.
  The model class that is passed along is not used by \<^verbatim>\<open>_request\<close>.
\<close>

definition send :: "client \<Rightarrow> gateway \<Rightarrow> string \<Rightarrow> pydict \<Rightarrow> outcome" where
  "send self gw path entity =
     (case request self gw ''POST'' path (Some entity) of
        (r, calls) \<Rightarrow> \<lparr>result = r, candidate = entity, requests = calls\<rparr>)"

definition create_task :: "client \<Rightarrow> gateway \<Rightarrow> env \<Rightarrow> pydict \<Rightarrow> outcome" where
  "create_task self gw e task0 =
     (let task1 = assign_if_absent task0 ''id'' (PStr (generate_id e ''task''));
          task2 = assign_if_absent task1 ''version'' (PStr ''0.1'');
          task3 = assign_if_absent task2 ''status'' (PStr ''draft'');
          task4 = assign_if_absent task3 ''created_at'' (PStr (now e))
      in if validate_schemas self
         then (case validate_task task4 of
                 Inl err \<Rightarrow> \<lparr>result = Inl err, candidate = task4, requests = []\<rparr>
               | Inr u \<Rightarrow> send self gw ''/tasks'' task4)
         else send self gw ''/tasks'' task4)"

definition submit_proposal :: "client \<Rightarrow> gateway \<Rightarrow> env \<Rightarrow> pydict \<Rightarrow> outcome" where
  "submit_proposal self gw e proposal0 =
     (let proposal1 = assign_if_absent proposal0 ''id'' (PStr (generate_id e ''prop''));
          proposal2 = assign_if_absent proposal1 ''status'' (PStr ''submitted'');
          proposal3 = assign_if_absent proposal2 ''created_at'' (PStr (now e))
      in if validate_schemas self
         then (case validate_proposal proposal3 of
                 Inl err \<Rightarrow> \<lparr>result = Inl err, candidate = proposal3, requests = []\<rparr>
               | Inr u \<Rightarrow> send self gw ''/proposals'' proposal3)
         else send self gw ''/proposals'' proposal3)"

definition accept_proposal :: "client \<Rightarrow> gateway \<Rightarrow> string \<Rightarrow> (error + pyval) \<times> http_call list" where
  "accept_proposal self gw proposal_id =
     request self gw ''POST'' (''/proposals/'' @ proposal_id @ ''/accept'') None"

definition submit_deliverable :: "client \<Rightarrow> gateway \<Rightarrow> env \<Rightarrow> pydict \<Rightarrow> outcome" where
  "submit_deliverable self gw e deliverable0 =
     (let deliverable1 = assign_if_absent deliverable0 ''id'' (PStr (generate_id e ''deliv''));
          deliverable2 = assign_if_absent deliverable1 ''status'' (PStr ''submitted'');
          deliverable3 = assign_if_absent deliverable2 ''submitted_at'' (PStr (now e))
      in if validate_schemas self
         then (case validate_deliverable deliverable3 of
                 Inl err \<Rightarrow> \<lparr>result = Inl err, candidate = deliverable3, requests = []\<rparr>
               | Inr u \<Rightarrow> send self gw ''/deliverables'' deliverable3)
         else send self gw ''/deliverables'' deliverable3)"

definition submit_review :: "client \<Rightarrow> gateway \<Rightarrow> env \<Rightarrow> pydict \<Rightarrow> outcome" where
  "submit_review self gw e review0 =
     (let review1 = assign_if_absent review0 ''id'' (PStr (generate_id e ''rev''));
          review2 = assign_if_absent review1 ''reviewed_at'' (PStr (now e))
      in if validate_schemas self
         then (case validate_review review2 of
                 Inl err \<Rightarrow> \<lparr>result = Inl err, candidate = review2, requests = []\<rparr>
               | Inr u \<Rightarrow> send self gw ''/reviews'' review2)
         else send self gw ''/reviews'' review2)"

section \<open>Concrete inputs\<close>

text \<open>The inputs at which the theorems below are evaluated.\<close>

definition demo_client :: client where
  "demo_client = OHAPClient ''http://localhost:3000/'' (Some ''test-key'') True"

text \<open>A Gateway that answers every call with status 200 and a Contract.\<close>

definition contract_gateway :: gateway where
  "contract_gateway call =
     Inr \<lparr>status_code = 200, text_of = [],
          json_data = Some (PDict [(''id'', PStr ''contract-001''),
                                   (''proposal_id'', PStr ''prop-001''),
                                   (''status'', PStr ''active'')])\<rparr>"

definition rejected_proposal :: pydict where
  "rejected_proposal =
     [(''id'', PStr ''prop-001''), (''task_id'', PStr ''task-001''), (''status'', PStr ''rejected'')]"

text \<open>The dictionary that \<^verbatim>\<open>test_validate_task\<close> of the test suite passes to the validator.\<close>

definition test_task :: pydict where
  "test_task =
     [(''title'', PStr ''Test''), (''objective'', PStr ''Test''),
      (''initiator'', PDict [(''id'', PStr ''a''), (''type'', PStr ''agent'')])]"

text \<open>The readings of the clock and of the random generator used in the examples.\<close>

definition demo_env :: env where
  "demo_env = \<lparr>time_ms = 1700000000123, rand_index = (\<lambda>i. 7 * i + 3),
                utcnow_isoformat = ''2026-02-18T17:00:00''\<rparr>"

text \<open>A client constructed with \<^verbatim>\<open>validate_schemas=False\<close>.\<close>

definition lenient_client :: client where
  "lenient_client = OHAPClient ''http://localhost:3000'' None False"

text \<open>The Task of the scenario in the specification, and a Task with an empty title.\<close>

definition logo_task :: pydict where
  "logo_task =
     [(''title'', PStr ''Logo''), (''objective'', PStr ''Create a memorable logo design''),
      (''initiator'', PDict [(''id'', PStr ''a1'')])]"

definition untitled_task :: pydict where
  "untitled_task = [(''title'', PStr '''')]"

text \<open>The Task of the scenario with its entries in another order.\<close>

definition reordered_task :: pydict where
  "reordered_task =
     [(''initiator'', PDict [(''id'', PStr ''a1'')]),
      (''objective'', PStr ''Create a memorable logo design''), (''title'', PStr ''Logo'')]"

text \<open>
  The Proposal that \<^verbatim>\<open>test_submit_proposal\<close> of the test suite submits, and the same
  Proposal with an identifier.
\<close>

definition test_proposal :: pydict where
  "test_proposal =
     [(''task_id'', PStr ''task-001''),
      (''proposer'', PDict [(''id'', PStr ''human-001''), (''type'', PStr ''human'')]),
      (''approach'', PStr ''Test approach'')]"

definition identified_proposal :: pydict where
  "identified_proposal = (''id'', PStr ''prop-001'') # test_proposal"

text \<open>Reviews whose decision is not one of the four values of \<^verbatim>\<open>ReviewDecision\<close>.\<close>

definition maybe_review :: pydict where
  "maybe_review =
     [(''id'', PStr ''rev-001''), (''deliverable_id'', PStr ''del-001''),
      (''reviewer'', PDict [(''id'', PStr ''agent-001'')]), (''decision'', PStr ''maybe'')]"

definition approved_review :: pydict where
  "approved_review =
     [(''id'', PStr ''rev-002''), (''deliverable_id'', PStr ''del-001''),
      (''reviewer'', PDict [(''id'', PStr ''agent-001'')]), (''decision'', PStr ''approved'')]"

text \<open>A Proposal that names its Task under the key \<^verbatim>\<open>taskId\<close>.\<close>

definition camel_proposal :: pydict where
  "camel_proposal =
     [(''id'', PStr ''prop-002''), (''taskId'', PStr ''task-001''),
      (''proposer'', PDict [(''id'', PStr ''h1'')]),
      (''approach'', PStr ''I will create three concept directions''),
      (''timeline'', PDict [(''estimated_completion'', PStr ''2026-02-18T17:00:00Z'')])]"


section \<open>Basic facts\<close>

lemma upper_POST: "upper ''POST'' = ''POST''"
  by (simp add: upper_def upper_char_def ascii_lowercase_def ascii_uppercase_def)

lemma snd_handle_response: "snd (handle_response gw call) = [call]"
  by (simp add: handle_response_def split: sum.split option.split)

lemma request_POST:
  "request self gw ''POST'' path body =
     handle_response gw
       \<lparr>verb = ''POST'', url = base_url self @ path,
        headers = [(''Content-Type'', ''application/json'')] @
                  (case api_key self of
                     None \<Rightarrow> []
                   | Some k \<Rightarrow> if k \<noteq> [] then [(''Authorization'', ''Bearer '' @ k)] else []),
        content = (case body of None \<Rightarrow> None | Some b \<Rightarrow> if b \<noteq> [] then Some b else None)\<rparr>"
  by (simp add: request_def upper_POST Let_def)

lemma demo_client_fields:
  "base_url demo_client = ''http://localhost:3000''"
  "api_key demo_client = Some ''test-key''"
  "validate_schemas demo_client = True"
  by (simp_all add: demo_client_def OHAPClient_def rstrip_slash_def)

section \<open>Dictionaries and default filling\<close>

lemma dict_set_absent: "\<not> dict_contains k d \<Longrightarrow> dict_set d k v = d @ [(k, v)]"
  unfolding dict_contains_def dict_set_def
  by (induction d) auto

lemma dict_contains_append:
  "dict_contains k (d @ d') = (dict_contains k d \<or> dict_contains k d')"
  by (auto simp: dict_contains_def)

lemma dict_contains_Cons: "dict_contains k ((k', v) # d) = (k = k' \<or> dict_contains k d)"
  by (auto simp: dict_contains_def)

lemma dict_contains_Nil: "dict_contains k [] = False"
  by (simp add: dict_contains_def)

lemma map_of_append_left: "k \<in> fst ` set d \<Longrightarrow> map_of (d @ d') k = map_of d k"
  by (induction d) auto

lemma dict_get_append_left: "dict_contains k d \<Longrightarrow> dict_get (d @ d') k = dict_get d k"
  unfolding dict_contains_def dict_get_def
  by (simp add: map_of_append_left del: map_of_append)

lemma assign_if_absent_append:
  "assign_if_absent d k v = d @ (if dict_contains k d then [] else [(k, v)])"
  by (simp add: assign_if_absent_def dict_set_absent)


lemma candidate_send: "candidate (send self gw path entity) = entity"
  by (simp add: send_def split: prod.split)

lemma snd_request_POST:
  "snd (request self gw ''POST'' path body) =
     [\<lparr>verb = ''POST'', url = base_url self @ path,
       headers = [(''Content-Type'', ''application/json'')] @
                 (case api_key self of
                    None \<Rightarrow> []
                  | Some k \<Rightarrow> if k \<noteq> [] then [(''Authorization'', ''Bearer '' @ k)] else []),
       content = (case body of None \<Rightarrow> None | Some b \<Rightarrow> if b \<noteq> [] then Some b else None)\<rparr>]"
  by (simp only: request_POST snd_handle_response)

lemma requests_send:
  "requests (send self gw path entity) = snd (request self gw ''POST'' path (Some entity))"
  by (simp add: send_def split: prod.split)




lemma create_task_candidate_chain:
  "candidate (create_task self gw e t) =
     assign_if_absent (assign_if_absent (assign_if_absent (assign_if_absent t
       ''id'' (PStr (generate_id e ''task''))) ''version'' (PStr ''0.1''))
       ''status'' (PStr ''draft'')) ''created_at'' (PStr (now e))"
  by (simp add: create_task_def Let_def candidate_send split: sum.split)

lemma create_task_rejecting:
  "validate_schemas self \<Longrightarrow> validate_task (candidate (create_task self gw e t)) = Inl err \<Longrightarrow>
     result (create_task self gw e t) = Inl err \<and> requests (create_task self gw e t) = []"
  unfolding create_task_candidate_chain
  by (simp add: create_task_def Let_def)

lemma create_task_sending:
  "\<not> validate_schemas self \<or> validate_task (candidate (create_task self gw e t)) = Inr () \<Longrightarrow>
     create_task self gw e t = send self gw ''/tasks'' (candidate (create_task self gw e t))"
  unfolding create_task_candidate_chain
  by (auto simp add: create_task_def Let_def)

lemma create_task_candidate:
  "candidate (create_task self gw e t) =
     t @ (if dict_contains ''id'' t then [] else [(''id'', PStr (generate_id e ''task''))])
       @ (if dict_contains ''version'' t then [] else [(''version'', PStr ''0.1'')])
       @ (if dict_contains ''status'' t then [] else [(''status'', PStr ''draft'')])
       @ (if dict_contains ''created_at'' t then [] else [(''created_at'', PStr (now e))])"
  unfolding create_task_candidate_chain
  by (simp add: assign_if_absent_append dict_contains_append dict_contains_Cons dict_contains_Nil)


lemma submit_proposal_candidate_chain:
  "candidate (submit_proposal self gw e t) =
     assign_if_absent (assign_if_absent (assign_if_absent (t) ''id'' (PStr (generate_id e ''prop''))) ''status'' (PStr ''submitted'')) ''created_at'' (PStr (now e))"
  by (simp add: submit_proposal_def Let_def candidate_send split: sum.split)

lemma submit_proposal_rejecting:
  "validate_schemas self \<Longrightarrow> validate_proposal (candidate (submit_proposal self gw e t)) = Inl err \<Longrightarrow>
     result (submit_proposal self gw e t) = Inl err \<and> requests (submit_proposal self gw e t) = []"
  unfolding submit_proposal_candidate_chain
  by (simp add: submit_proposal_def Let_def)


lemma submit_proposal_candidate:
  "candidate (submit_proposal self gw e t) =
     t @ (if dict_contains ''id'' t then [] else [(''id'', PStr (generate_id e ''prop''))])
       @ (if dict_contains ''status'' t then [] else [(''status'', PStr ''submitted'')])
       @ (if dict_contains ''created_at'' t then [] else [(''created_at'', PStr (now e))])"
  unfolding submit_proposal_candidate_chain
  by (simp add: assign_if_absent_append dict_contains_append dict_contains_Cons dict_contains_Nil)

lemma submit_deliverable_candidate_chain:
  "candidate (submit_deliverable self gw e t) =
     assign_if_absent (assign_if_absent (assign_if_absent (t) ''id'' (PStr (generate_id e ''deliv''))) ''status'' (PStr ''submitted'')) ''submitted_at'' (PStr (now e))"
  by (simp add: submit_deliverable_def Let_def candidate_send split: sum.split)

lemma submit_deliverable_rejecting:
  "validate_schemas self \<Longrightarrow> validate_deliverable (candidate (submit_deliverable self gw e t)) = Inl err \<Longrightarrow>
     result (submit_deliverable self gw e t) = Inl err \<and> requests (submit_deliverable self gw e t) = []"
  unfolding submit_deliverable_candidate_chain
  by (simp add: submit_deliverable_def Let_def)


lemma submit_deliverable_candidate:
  "candidate (submit_deliverable self gw e t) =
     t @ (if dict_contains ''id'' t then [] else [(''id'', PStr (generate_id e ''deliv''))])
       @ (if dict_contains ''status'' t then [] else [(''status'', PStr ''submitted'')])
       @ (if dict_contains ''submitted_at'' t then [] else [(''submitted_at'', PStr (now e))])"
  unfolding submit_deliverable_candidate_chain
  by (simp add: assign_if_absent_append dict_contains_append dict_contains_Cons dict_contains_Nil)

lemma submit_review_candidate_chain:
  "candidate (submit_review self gw e t) =
     assign_if_absent (assign_if_absent (t) ''id'' (PStr (generate_id e ''rev''))) ''reviewed_at'' (PStr (now e))"
  by (simp add: submit_review_def Let_def candidate_send split: sum.split)

lemma submit_review_rejecting:
  "validate_schemas self \<Longrightarrow> validate_review (candidate (submit_review self gw e t)) = Inl err \<Longrightarrow>
     result (submit_review self gw e t) = Inl err \<and> requests (submit_review self gw e t) = []"
  unfolding submit_review_candidate_chain
  by (simp add: submit_review_def Let_def)


lemma submit_review_candidate:
  "candidate (submit_review self gw e t) =
     t @ (if dict_contains ''id'' t then [] else [(''id'', PStr (generate_id e ''rev''))])
       @ (if dict_contains ''reviewed_at'' t then [] else [(''reviewed_at'', PStr (now e))])"
  unfolding submit_review_candidate_chain
  by (simp add: assign_if_absent_append dict_contains_append dict_contains_Cons dict_contains_Nil)





section \<open>Evaluation at the concrete inputs\<close>

lemma lenient_client_fields:
  "base_url lenient_client = ''http://localhost:3000''"
  "api_key lenient_client = None"
  "validate_schemas lenient_client = False"
  by (simp_all add: lenient_client_def OHAPClient_def rstrip_slash_def)

lemma generate_id_demo_env:
  "generate_id demo_env ''task'' = ''task-1700000000123-dkry5cjqx''"
  "generate_id demo_env ''prop'' = ''prop-1700000000123-dkry5cjqx''"
  "generate_id demo_env ''deliv'' = ''deliv-1700000000123-dkry5cjqx''"
  "generate_id demo_env ''rev'' = ''rev-1700000000123-dkry5cjqx''"
  by (simp_all add: generate_id_def demo_env_def str_int_def str_nat.simps digit_char_def
        random_part_def ascii_lowercase_def digits_def upt_rec)

lemma now_demo_env: "now demo_env = ''2026-02-18T17:00:00Z''"
  by (simp add: now_def demo_env_def)

lemmas eval_validators =
  validate_task_def validate_proposal_def validate_deliverable_def validate_review_def
  raise_if_def or_else_def len_less_def len_is_zero_def dict_get_def dict_get_default_def

section \<open>Sending and identifiers\<close>


lemma digit_char_in_digits: "d < 10 \<Longrightarrow> digit_char d \<in> set digits"
  unfolding digit_char_def digits_def
  by (rule nth_mem) simp

lemma str_nat_digits: "str_nat n \<noteq> [] \<and> set (str_nat n) \<subseteq> set digits"
proof (induction n rule: str_nat.induct)
  case (1 n)
  show ?case
  proof (cases "n < 10")
    case True
    then show ?thesis
      by (simp add: str_nat.simps [of n] digit_char_in_digits)
  next
    case False
    with 1 have "str_nat (n div 10) \<noteq> [] \<and> set (str_nat (n div 10)) \<subseteq> set digits"
      by simp
    moreover have "digit_char (n mod 10) \<in> set digits"
      by (rule digit_char_in_digits) simp
    ultimately show ?thesis
      using False by (simp add: str_nat.simps [of n])
  qed
qed

lemma random_part_shape:
  "length (random_part e) = 9 \<and> set (random_part e) \<subseteq> set (ascii_lowercase @ digits)"
proof -
  have "(ascii_lowercase @ digits) ! (k mod length (ascii_lowercase @ digits))
          \<in> set (ascii_lowercase @ digits)" for k
    by (rule nth_mem) (simp add: ascii_lowercase_def digits_def)
  then show ?thesis
    unfolding random_part_def by auto
qed

lemma dict_get_assigned:
  "\<not> dict_contains k t \<Longrightarrow> dict_get (t @ (k, v) # rest) k = v"
  unfolding dict_contains_def dict_get_def
  by (induction t) auto

section \<open>The validators as chains of tests\<close>

text \<open>
  Each validator is a chain of tests, the first failing one deciding the error. The length
  tests never raise, since \<^verbatim>\<open>len\<close> is reached only for a string or a list.
\<close>

lemma raise_if_Inr: "raise_if (Inr b) e rest = (if b then Inl e else rest)"
  by (simp add: raise_if_def)

lemma str_check:
  "or_else (\<not> isinstance_str v) (len_less v n) =
     Inr (case v of PStr s \<Rightarrow> length s < n | _ \<Rightarrow> True)"
  by (cases v) (simp_all add: or_else_def len_less_def)

lemma str_check_get:
  "or_else (\<not> isinstance_str (dict_get d k)) (len_less (dict_get_default d k (PStr [])) n) =
     Inr (case dict_get d k of PStr s \<Rightarrow> length s < n | _ \<Rightarrow> True)"
proof (cases "map_of d k")
  case None
  then show ?thesis
    by (simp add: dict_get_def dict_get_default_def or_else_def)
next
  case (Some v)
  then have "dict_get_default d k (PStr []) = dict_get d k"
    by (simp add: dict_get_def dict_get_default_def)
  then show ?thesis
    by (simp add: str_check)
qed

lemma list_check:
  "or_else (\<not> isinstance_list v) (len_is_zero v) =
     Inr (case v of PList xs \<Rightarrow> xs = [] | _ \<Rightarrow> True)"
  by (cases v) (simp_all add: or_else_def len_is_zero_def)

lemma validate_task_flat:
  "validate_task t =
     (if \<not> isinstance_str (dict_get t ''id'') \<or> \<not> truthy (dict_get t ''id'')
      then Inl (ValueError ''Task must have a valid id'')
      else if (case dict_get t ''title'' of PStr s \<Rightarrow> length s < 3 | _ \<Rightarrow> True)
      then Inl (ValueError ''Task title must be at least 3 characters'')
      else if (case dict_get t ''objective'' of PStr s \<Rightarrow> length s < 10 | _ \<Rightarrow> True)
      then Inl (ValueError ''Task objective must be at least 10 characters'')
      else if not_dict_or_falsy (dict_get t ''initiator'') ''id''
      then Inl (ValueError ''Task must have a valid initiator'')
      else Inr ())"
  unfolding validate_task_def str_check_get raise_if_Inr by (rule refl)

lemma validate_proposal_flat:
  "validate_proposal p =
     (if \<not> isinstance_str (dict_get p ''id'') \<or> \<not> truthy (dict_get p ''id'')
      then Inl (ValueError ''Proposal must have a valid id'')
      else if \<not> truthy (dict_get p ''task_id'') \<and> \<not> truthy (dict_get p ''taskId'')
      then Inl (ValueError ''Proposal must reference a task'')
      else if not_dict_or_falsy (dict_get p ''proposer'') ''id''
      then Inl (ValueError ''Proposal must have a valid proposer'')
      else if (case dict_get_default p ''approach'' (PStr []) of PStr s \<Rightarrow> length s < 20 | _ \<Rightarrow> True)
      then Inl (ValueError ''Proposal approach must be at least 20 characters'')
      else if not_dict_or_falsy (dict_get p ''timeline'') ''estimated_completion''
      then Inl (ValueError ''Proposal must have an estimated completion date'')
      else Inr ())"
  unfolding validate_proposal_def str_check raise_if_Inr by (rule refl)

lemma evidence_checks_flat:
  "evidence_checks v =
     (case v of
        PDict evidence \<Rightarrow>
          if (case dict_get_default evidence ''items'' (PList []) of PList xs \<Rightarrow> xs = [] | _ \<Rightarrow> True)
          then Inl (ValueError ''Deliverable must have at least one evidence item'')
          else Inr ()
      | _ \<Rightarrow> Inl (ValueError ''Deliverable must have evidence data''))"
  by (cases v) (simp_all add: list_check raise_if_Inr)

lemma validate_deliverable_flat:
  "validate_deliverable d =
     (if \<not> isinstance_str (dict_get d ''id'') \<or> \<not> truthy (dict_get d ''id'')
      then Inl (ValueError ''Deliverable must have a valid id'')
      else if \<not> truthy (dict_get d ''task_id'')
      then Inl (ValueError ''Deliverable must reference a task'')
      else if \<not> truthy (dict_get d ''contract_id'')
      then Inl (ValueError ''Deliverable must reference a contract'')
      else if not_dict_or_falsy (dict_get d ''submitter'') ''id''
      then Inl (ValueError ''Deliverable must have a valid submitter'')
      else if (case dict_get_default d ''artifacts'' (PList []) of PList xs \<Rightarrow> xs = [] | _ \<Rightarrow> True)
      then Inl (ValueError ''Deliverable must have at least one artifact'')
      else evidence_checks (dict_get d ''evidence''))"
  unfolding validate_deliverable_def list_check raise_if_Inr by (rule refl)

lemma validate_review_flat:
  "validate_review r =
     (if \<not> isinstance_str (dict_get r ''id'') \<or> \<not> truthy (dict_get r ''id'')
      then Inl (ValueError ''Review must have a valid id'')
      else if \<not> truthy (dict_get r ''deliverable_id'')
      then Inl (ValueError ''Review must reference a deliverable'')
      else if not_dict_or_falsy (dict_get r ''reviewer'') ''id''
      then Inl (ValueError ''Review must have a valid reviewer'')
      else if \<not> truthy (dict_get r ''decision'')
      then Inl (ValueError ''Review must have a decision'')
      else Inr ())"
  unfolding validate_review_def raise_if_Inr by (rule refl)

text \<open>Hence a validator either returns or raises a \<^verbatim>\<open>ValueError\<close>, whatever the candidate.\<close>

lemma validators_raise_ValueError_only:
  "validate_task c = Inr () \<or> (\<exists>m. validate_task c = Inl (ValueError m))"
  "validate_proposal c = Inr () \<or> (\<exists>m. validate_proposal c = Inl (ValueError m))"
  "validate_deliverable c = Inr () \<or> (\<exists>m. validate_deliverable c = Inl (ValueError m))"
  "validate_review c = Inr () \<or> (\<exists>m. validate_review c = Inl (ValueError m))"
  by (simp_all add: validate_task_flat validate_proposal_flat validate_deliverable_flat
        validate_review_flat evidence_checks_flat split: pyval.split)

lemma dict_get_cong:
  assumes "map_of c = map_of c'"
  shows "dict_get c = dict_get c'" and "dict_get_default c = dict_get_default c'"
  using assms by (simp_all add: fun_eq_iff dict_get_def dict_get_default_def)

lemma dict_get_default_present:
  "dict_get d k \<noteq> PNone \<Longrightarrow> dict_get_default d k dflt = dict_get d k"
  by (simp add: dict_get_def dict_get_default_def split: option.splits)

lemma dict_get_absent: "\<not> dict_contains k d \<Longrightarrow> dict_get d k = PNone"
  unfolding dict_contains_def dict_get_def
  by (simp add: map_of_eq_None_iff [THEN iffD2])

section \<open>Accepting a proposal\<close>

text \<open>
  Claim C1, as the specification states it: \<^verbatim>\<open>acceptProposal\<close> on a Proposal in status
  \<open>rejected\<close> or \<open>withdrawn\<close> fails locally with an InvalidTransition, and on a Proposal
  in status \<open>submitted\<close> or \<open>under-review\<close> it yields an active Contract. The code takes
  the identifier of the proposal only and never sees its status: for the rejected proposal
  \<open>prop-001\<close> it sends the call and returns the Contract that the Gateway answers.
\<close>

theorem accept_proposal_rejected_counterexample:
  "dict_get rejected_proposal ''id'' = PStr ''prop-001''
   \<and> dict_get rejected_proposal ''status'' = PStr ''rejected''
   \<and> accept_proposal demo_client contract_gateway ''prop-001'' =
       (Inr (PDict [(''id'', PStr ''contract-001''), (''proposal_id'', PStr ''prop-001''),
                    (''status'', PStr ''active'')]),
        [\<lparr>verb = ''POST'', url = ''http://localhost:3000/proposals/prop-001/accept'',
          headers = [(''Content-Type'', ''application/json''), (''Authorization'', ''Bearer test-key'')],
          content = None\<rparr>])"
  by (simp add: accept_proposal_def request_POST demo_client_fields handle_response_def
        contract_gateway_def rejected_proposal_def dict_get_def)

text \<open>
  Claim C1, amended: for every client, Gateway and proposal identifier,
  \<^verbatim>\<open>accept_proposal\<close> makes no local check. It sends exactly one call, a POST without
  content to \<^verbatim>\<open>/proposals/<id>/accept\<close>, and its result is decided by the Gateway's
  answer alone: the exception of the transport, an API error for a status of 400 or more,
  and otherwise the decoded data, returned as they are.
\<close>

theorem accept_proposal_forwards:
  "\<exists>call. verb call = ''POST''
        \<and> url call = base_url self @ ''/proposals/'' @ proposal_id @ ''/accept''
        \<and> content call = None
        \<and> snd (accept_proposal self gw proposal_id) = [call]
        \<and> fst (accept_proposal self gw proposal_id) =
            (case gw call of
               Inl e \<Rightarrow> Inl e
             | Inr resp \<Rightarrow>
                 if status_code resp \<ge> 400
                 then Inl (APIError (''OHAP API error: '' @ str_int (status_code resp) @ '' '' @ text_of resp))
                 else (case json_data resp of None \<Rightarrow> Inl JSONDecodeError | Some data \<Rightarrow> Inr data))"
  unfolding accept_proposal_def request_POST
  by (rule exI [where x = "\<lparr>verb = ''POST'', url = base_url self @ ''/proposals/'' @ proposal_id @ ''/accept'',
        headers = [(''Content-Type'', ''application/json'')] @
                  (case api_key self of
                     None \<Rightarrow> []
                   | Some k \<Rightarrow> if k \<noteq> [] then [(''Authorization'', ''Bearer '' @ k)] else []),
        content = None\<rparr>"])
     (simp add: handle_response_def split: sum.split option.split)

section \<open>What the validators return\<close>

text \<open>
  Claim C2 says that validation returns the list of all violated rules and never raises
  for an invalid candidate. On the dictionary of the test suite, which has no \<open>id\<close> and
  an objective of four characters, \<^verbatim>\<open>validate_task\<close> raises a \<^verbatim>\<open>ValueError\<close> for the
  identifier and reports nothing about the objective.
\<close>

theorem validate_task_test_input_raises:
  "validate_task test_task = Inl (ValueError ''Task must have a valid id'')"
  by (simp add: validate_task_def test_task_def raise_if_def dict_get_def)

text \<open>Hence the test input is not accepted, and no list of errors is returned for it.\<close>

theorem validate_task_test_input_not_accepted: "validate_task test_task \<noteq> Inr ()"
  using validate_task_test_input_raises by simp

section \<open>Validation and the network\<close>

text \<open>
  Claim C3, as the specification states it: a candidate that fails validation never reaches
  the Gateway. A client constructed with \<^verbatim>\<open>validate_schemas=False\<close> sends a Task with an
  empty title, which \<^verbatim>\<open>validate_task\<close> rejects, to the Gateway.
\<close>

theorem create_task_unvalidated_counterexample:
  "validate_schemas lenient_client = False
   \<and> validate_task (candidate (create_task lenient_client contract_gateway demo_env untitled_task))
       = Inl (ValueError ''Task title must be at least 3 characters'')
   \<and> requests (create_task lenient_client contract_gateway demo_env untitled_task) =
       [\<lparr>verb = ''POST'', url = ''http://localhost:3000/tasks'',
         headers = [(''Content-Type'', ''application/json'')],
         content = Some [(''title'', PStr ''''), (''id'', PStr ''task-1700000000123-dkry5cjqx''),
                         (''version'', PStr ''0.1''), (''status'', PStr ''draft''),
                         (''created_at'', PStr ''2026-02-18T17:00:00Z'')]\<rparr>]"
proof -
  have c: "candidate (create_task lenient_client contract_gateway demo_env untitled_task) =
      [(''title'', PStr ''''), (''id'', PStr ''task-1700000000123-dkry5cjqx''),
       (''version'', PStr ''0.1''), (''status'', PStr ''draft''),
       (''created_at'', PStr ''2026-02-18T17:00:00Z'')]"
    by (simp add: create_task_candidate untitled_task_def dict_contains_Cons dict_contains_Nil
          generate_id_demo_env now_demo_env)
  have v: "validate_task (candidate (create_task lenient_client contract_gateway demo_env untitled_task))
      = Inl (ValueError ''Task title must be at least 3 characters'')"
    unfolding c by (simp add: eval_validators)
  have "create_task lenient_client contract_gateway demo_env untitled_task =
        send lenient_client contract_gateway ''/tasks''
          (candidate (create_task lenient_client contract_gateway demo_env untitled_task))"
    by (rule create_task_sending) (simp add: lenient_client_fields)
  then have r: "requests (create_task lenient_client contract_gateway demo_env untitled_task) =
      snd (request lenient_client contract_gateway ''POST'' ''/tasks''
            (Some (candidate (create_task lenient_client contract_gateway demo_env untitled_task))))"
    by (metis requests_send)
  show ?thesis
    unfolding r v unfolding c
    by (simp add: snd_request_POST lenient_client_fields)
qed

text \<open>
  Claim C3, amended: for every client whose \<open>validate_schemas\<close> is set (the default of the
  constructor), each of the four operations validates the candidate after the defaults
  were filled in, and when that validation fails the operation raises the validator's
  error and sends no call at all.
\<close>

theorem validation_failure_precedes_network:
  assumes "validate_schemas self"
  shows "(validate_task (candidate (create_task self gw e t)) = Inl err \<longrightarrow>
            result (create_task self gw e t) = Inl err \<and> requests (create_task self gw e t) = [])
       \<and> (validate_proposal (candidate (submit_proposal self gw e t)) = Inl err \<longrightarrow>
            result (submit_proposal self gw e t) = Inl err \<and> requests (submit_proposal self gw e t) = [])
       \<and> (validate_deliverable (candidate (submit_deliverable self gw e t)) = Inl err \<longrightarrow>
            result (submit_deliverable self gw e t) = Inl err \<and> requests (submit_deliverable self gw e t) = [])
       \<and> (validate_review (candidate (submit_review self gw e t)) = Inl err \<longrightarrow>
            result (submit_review self gw e t) = Inl err \<and> requests (submit_review self gw e t) = [])"
  using assms create_task_rejecting submit_proposal_rejecting submit_deliverable_rejecting
    submit_review_rejecting
  by blast

text \<open>The four operations at candidates that fail validation.\<close>

theorem validation_failure_precedes_network_witness:
  "validate_schemas demo_client
   \<and> result (create_task demo_client contract_gateway demo_env untitled_task)
       = Inl (ValueError ''Task title must be at least 3 characters'')
   \<and> requests (create_task demo_client contract_gateway demo_env untitled_task) = []
   \<and> result (submit_proposal demo_client contract_gateway demo_env [])
       = Inl (ValueError ''Proposal must reference a task'')
   \<and> requests (submit_proposal demo_client contract_gateway demo_env []) = []
   \<and> result (submit_deliverable demo_client contract_gateway demo_env [])
       = Inl (ValueError ''Deliverable must reference a task'')
   \<and> requests (submit_deliverable demo_client contract_gateway demo_env []) = []
   \<and> result (submit_review demo_client contract_gateway demo_env [])
       = Inl (ValueError ''Review must reference a deliverable'')
   \<and> requests (submit_review demo_client contract_gateway demo_env []) = []"
proof -
  have vs: "validate_schemas demo_client"
    by (simp add: demo_client_fields)
  have t: "validate_task (candidate (create_task demo_client contract_gateway demo_env untitled_task))
      = Inl (ValueError ''Task title must be at least 3 characters'')"
    by (simp add: create_task_candidate untitled_task_def dict_contains_Cons dict_contains_Nil
          generate_id_demo_env now_demo_env eval_validators)
  have p: "validate_proposal (candidate (submit_proposal demo_client contract_gateway demo_env []))
      = Inl (ValueError ''Proposal must reference a task'')"
    by (simp add: submit_proposal_candidate dict_contains_Nil generate_id_demo_env now_demo_env
          eval_validators)
  have d: "validate_deliverable (candidate (submit_deliverable demo_client contract_gateway demo_env []))
      = Inl (ValueError ''Deliverable must reference a task'')"
    by (simp add: submit_deliverable_candidate dict_contains_Nil generate_id_demo_env now_demo_env
          eval_validators)
  have r: "validate_review (candidate (submit_review demo_client contract_gateway demo_env []))
      = Inl (ValueError ''Review must reference a deliverable'')"
    by (simp add: submit_review_candidate dict_contains_Nil generate_id_demo_env now_demo_env
          eval_validators)
  show ?thesis
    using vs t p d r
      validation_failure_precedes_network
        [OF vs, of contract_gateway demo_env untitled_task
           "ValueError ''Task title must be at least 3 characters''"]
      validation_failure_precedes_network
        [OF vs, of contract_gateway demo_env "[]" "ValueError ''Proposal must reference a task''"]
      validation_failure_precedes_network
        [OF vs, of contract_gateway demo_env "[]" "ValueError ''Deliverable must reference a task''"]
      validation_failure_precedes_network
        [OF vs, of contract_gateway demo_env "[]" "ValueError ''Review must reference a deliverable''"]
    by blast
qed

section \<open>The caller's dictionary\<close>

text \<open>
  Claim C6, as the specification states it: an operation leaves the candidate that the
  caller passed in unmodified. After \<^verbatim>\<open>create_task\<close> on the Task of the scenario, the
  caller's dictionary has four more entries.
\<close>

theorem create_task_mutates_candidate_counterexample:
  "candidate (create_task demo_client contract_gateway demo_env logo_task) =
     logo_task @ [(''id'', PStr ''task-1700000000123-dkry5cjqx''), (''version'', PStr ''0.1''),
                  (''status'', PStr ''draft''), (''created_at'', PStr ''2026-02-18T17:00:00Z'')]
   \<and> candidate (create_task demo_client contract_gateway demo_env logo_task) \<noteq> logo_task"
  by (simp add: create_task_candidate logo_task_def dict_contains_Cons dict_contains_Nil
        generate_id_demo_env now_demo_env)

text \<open>
  Claim C6, amended: each operation assigns the defaults to the caller's dictionary in
  place. After the call the dictionary consists of the entries it had, unchanged and in
  their order, followed by one entry for each default key that was absent: \<open>id\<close>,
  \<open>version\<close>, \<open>status\<close> and \<open>created_at\<close> for a Task; \<open>id\<close>, \<open>status\<close> and
  \<open>created_at\<close> for a Proposal; \<open>id\<close>, \<open>status\<close> and \<open>submitted_at\<close> for a
  Deliverable; \<open>id\<close> and \<open>reviewed_at\<close> for a Review. It is unmodified exactly when all
  of these keys were present.
\<close>

theorem defaults_filled_in_place:
  "candidate (create_task self gw e t) =
     t @ (if dict_contains ''id'' t then [] else [(''id'', PStr (generate_id e ''task''))])
       @ (if dict_contains ''version'' t then [] else [(''version'', PStr ''0.1'')])
       @ (if dict_contains ''status'' t then [] else [(''status'', PStr ''draft'')])
       @ (if dict_contains ''created_at'' t then [] else [(''created_at'', PStr (now e))])
   \<and> candidate (submit_proposal self gw e t) =
     t @ (if dict_contains ''id'' t then [] else [(''id'', PStr (generate_id e ''prop''))])
       @ (if dict_contains ''status'' t then [] else [(''status'', PStr ''submitted'')])
       @ (if dict_contains ''created_at'' t then [] else [(''created_at'', PStr (now e))])
   \<and> candidate (submit_deliverable self gw e t) =
     t @ (if dict_contains ''id'' t then [] else [(''id'', PStr (generate_id e ''deliv''))])
       @ (if dict_contains ''status'' t then [] else [(''status'', PStr ''submitted'')])
       @ (if dict_contains ''submitted_at'' t then [] else [(''submitted_at'', PStr (now e))])
   \<and> candidate (submit_review self gw e t) =
     t @ (if dict_contains ''id'' t then [] else [(''id'', PStr (generate_id e ''rev''))])
       @ (if dict_contains ''reviewed_at'' t then [] else [(''reviewed_at'', PStr (now e))])"
  by (simp only: create_task_candidate submit_proposal_candidate submit_deliverable_candidate
        submit_review_candidate simp_thms)


section \<open>Validation switched off\<close>




section \<open>Identifiers assigned by the client\<close>

text \<open>
  Claim C7: when the candidate has no \<open>id\<close>, the operation assigns
  \<^verbatim>\<open>_generate_id(prefix)\<close> with the prefix \<open>task\<close>, \<open>prop\<close>, \<open>deliv\<close> or \<open>rev\<close> of
  its kind, and every generated identifier is the prefix, a hyphen, the clock reading in
  milliseconds in decimal, a hyphen, and nine characters drawn from the lower-case letters
  and the digits.
\<close>

theorem assigned_id_pattern:
  assumes "\<not> dict_contains ''id'' t"
  shows "dict_get (candidate (create_task self gw e t)) ''id'' = PStr (generate_id e ''task'')
       \<and> dict_get (candidate (submit_proposal self gw e t)) ''id'' = PStr (generate_id e ''prop'')
       \<and> dict_get (candidate (submit_deliverable self gw e t)) ''id'' = PStr (generate_id e ''deliv'')
       \<and> dict_get (candidate (submit_review self gw e t)) ''id'' = PStr (generate_id e ''rev'')
       \<and> (\<exists>sign ms suffix.
             generate_id e prefix = prefix @ ''-'' @ sign @ ms @ ''-'' @ suffix
             \<and> sign = (if time_ms e < 0 then ''-'' else [])
             \<and> sign @ ms = str_int (time_ms e)
             \<and> ms \<noteq> [] \<and> set ms \<subseteq> set digits
             \<and> length suffix = 9 \<and> set suffix \<subseteq> set (ascii_lowercase @ digits))"
proof -
  have ids: "dict_get (candidate (create_task self gw e t)) ''id'' = PStr (generate_id e ''task'')"
    "dict_get (candidate (submit_proposal self gw e t)) ''id'' = PStr (generate_id e ''prop'')"
    "dict_get (candidate (submit_deliverable self gw e t)) ''id'' = PStr (generate_id e ''deliv'')"
    "dict_get (candidate (submit_review self gw e t)) ''id'' = PStr (generate_id e ''rev'')"
    using assms
    by (simp_all add: create_task_candidate submit_proposal_candidate
          submit_deliverable_candidate submit_review_candidate dict_get_assigned)
  have "generate_id e prefix =
          prefix @ ''-'' @ (if time_ms e < 0 then ''-'' else []) @ str_nat (nat \<bar>time_ms e\<bar>)
            @ ''-'' @ random_part e"
    by (simp add: generate_id_def str_int_def)
  then have "\<exists>sign ms suffix.
             generate_id e prefix = prefix @ ''-'' @ sign @ ms @ ''-'' @ suffix
             \<and> sign = (if time_ms e < 0 then ''-'' else [])
             \<and> sign @ ms = str_int (time_ms e)
             \<and> ms \<noteq> [] \<and> set ms \<subseteq> set digits
             \<and> length suffix = 9 \<and> set suffix \<subseteq> set (ascii_lowercase @ digits)"
    using str_nat_digits [of "nat \<bar>time_ms e\<bar>"] random_part_shape [of e]
    by (intro exI [where x = "if time_ms e < 0 then ''-'' else []"]
          exI [where x = "str_nat (nat \<bar>time_ms e\<bar>)"] exI [where x = "random_part e"])
       (simp add: str_int_def)
  with ids show ?thesis by blast
qed

text \<open>The four operations on a candidate without an identifier.\<close>

theorem assigned_id_pattern_witness:
  "\<not> dict_contains ''id'' logo_task
   \<and> dict_get (candidate (create_task demo_client contract_gateway demo_env logo_task)) ''id''
       = PStr ''task-1700000000123-dkry5cjqx''
   \<and> dict_get (candidate (submit_proposal demo_client contract_gateway demo_env logo_task)) ''id''
       = PStr ''prop-1700000000123-dkry5cjqx''
   \<and> dict_get (candidate (submit_deliverable demo_client contract_gateway demo_env logo_task)) ''id''
       = PStr ''deliv-1700000000123-dkry5cjqx''
   \<and> dict_get (candidate (submit_review demo_client contract_gateway demo_env logo_task)) ''id''
       = PStr ''rev-1700000000123-dkry5cjqx''"
proof -
  have absent: "\<not> dict_contains ''id'' logo_task"
    by (simp add: logo_task_def dict_contains_Cons dict_contains_Nil)
  show ?thesis
    using absent assigned_id_pattern [OF absent, of demo_client contract_gateway demo_env]
    by (simp add: generate_id_demo_env)
qed


section \<open>Validation as a function of the candidate\<close>

text \<open>
  Claim C8: validation is deterministic and reads nothing but the candidate. The
  validators take the candidate alone, neither the clock, the random generator nor the
  Gateway, and they only look keys up: two candidates with the same keys and values, the
  same candidate twice in particular, whatever the order of insertion, get the same
  outcome from each of the four validators.
\<close>

theorem validation_depends_on_content_only:
  assumes "map_of c = map_of c'"
  shows "validate_task c = validate_task c'
       \<and> validate_proposal c = validate_proposal c'
       \<and> validate_deliverable c = validate_deliverable c'
       \<and> validate_review c = validate_review c'"
  unfolding validate_task_def validate_proposal_def validate_deliverable_def validate_review_def
    dict_get_cong [OF assms]
  by simp

text \<open>The Task of the scenario and its reordering.\<close>

theorem validation_depends_on_content_only_witness:
  "map_of logo_task = map_of reordered_task
   \<and> logo_task \<noteq> reordered_task
   \<and> validate_task logo_task = validate_task reordered_task
   \<and> validate_proposal logo_task = validate_proposal reordered_task
   \<and> validate_deliverable logo_task = validate_deliverable reordered_task
   \<and> validate_review logo_task = validate_review reordered_task"
proof -
  have m: "map_of logo_task = map_of reordered_task"
    by (rule ext) (simp add: logo_task_def reordered_task_def)
  have "logo_task \<noteq> reordered_task"
    by (simp add: logo_task_def reordered_task_def)
  with m validation_depends_on_content_only [OF m] show ?thesis
    by blast
qed

section \<open>Short approaches\<close>

text \<open>
  Claim C4, as the specification states it: a Proposal whose approach is shorter than 20
  characters fails on the approach whatever the other fields. The Proposal of the test
  suite has an approach of 13 characters and no identifier, and fails on the identifier.
\<close>

theorem short_approach_other_error_counterexample:
  "dict_get test_proposal ''approach'' = PStr ''Test approach''
   \<and> length ''Test approach'' < 20
   \<and> validate_proposal test_proposal = Inl (ValueError ''Proposal must have a valid id'')"
  by (simp add: validate_proposal_flat test_proposal_def dict_get_def)

text \<open>
  Claim C4, amended: a Proposal whose approach is a string shorter than 20 characters is
  rejected whatever its other fields, and the failure that is reported is the one of the
  approach whenever the identifier, the task reference and the proposer pass their tests,
  whether the timeline is valid or not.
\<close>

theorem short_approach_rejected:
  assumes "dict_get p ''approach'' = PStr s" and "length s < 20"
  shows "(\<exists>m. validate_proposal p = Inl (ValueError m))
       \<and> (isinstance_str (dict_get p ''id'') \<and> truthy (dict_get p ''id'')
            \<and> (truthy (dict_get p ''task_id'') \<or> truthy (dict_get p ''taskId''))
            \<and> \<not> not_dict_or_falsy (dict_get p ''proposer'') ''id''
          \<longrightarrow> validate_proposal p =
                Inl (ValueError ''Proposal approach must be at least 20 characters''))"
proof -
  have "dict_get_default p ''approach'' (PStr []) = PStr s"
    using assms(1) dict_get_default_present [of p "''approach''" "PStr []"] by simp
  then show ?thesis
    using assms(2) by (simp add: validate_proposal_flat)
qed

text \<open>The Proposal of the test suite, with an identifier.\<close>

theorem short_approach_rejected_witness:
  "dict_get identified_proposal ''approach'' = PStr ''Test approach''
   \<and> length ''Test approach'' < 20
   \<and> validate_proposal identified_proposal =
       Inl (ValueError ''Proposal approach must be at least 20 characters'')"
proof -
  have a: "dict_get identified_proposal ''approach'' = PStr ''Test approach''"
    by (simp add: identified_proposal_def test_proposal_def dict_get_def)
  have l: "length ''Test approach'' < 20"
    by simp
  have "isinstance_str (dict_get identified_proposal ''id'')
        \<and> truthy (dict_get identified_proposal ''id'')
        \<and> (truthy (dict_get identified_proposal ''task_id'')
             \<or> truthy (dict_get identified_proposal ''taskId''))
        \<and> \<not> not_dict_or_falsy (dict_get identified_proposal ''proposer'') ''id''"
    by (simp add: identified_proposal_def test_proposal_def dict_get_def)
  with short_approach_rejected [OF a l] a l show ?thesis
    by blast
qed

section \<open>The decision of a Review\<close>

text \<open>
  Claim C5, as the specification states it: a Review whose decision is present and not a
  member of \<^verbatim>\<open>ReviewDecision\<close> is rejected. The validator accepts the decision
  \<^verbatim>\<open>maybe\<close>.
\<close>

theorem unrecognized_decision_counterexample:
  "dict_get maybe_review ''decision'' = PStr ''maybe''
   \<and> PStr ''maybe'' \<notin> {PStr ''accepted'', PStr ''rejected'', PStr ''revision-requested'',
                         PStr ''escalated''}
   \<and> validate_review maybe_review = Inr ()"
  by (simp add: validate_review_flat maybe_review_def dict_get_def)

text \<open>
  Claim C5, amended: the validator tests the decision of a Review for presence only. It
  rejects a Review whose decision is absent or empty, and accepts a Review exactly when its
  identifier is a non-empty string, its deliverable reference is non-empty, its reviewer
  is a dictionary with a non-empty identifier and its decision is non-empty, member of
  \<^verbatim>\<open>ReviewDecision\<close> or not.
\<close>

theorem review_decision_presence_only:
  "(validate_review r = Inr () \<longleftrightarrow>
      isinstance_str (dict_get r ''id'') \<and> truthy (dict_get r ''id'')
      \<and> truthy (dict_get r ''deliverable_id'')
      \<and> \<not> not_dict_or_falsy (dict_get r ''reviewer'') ''id''
      \<and> truthy (dict_get r ''decision''))
   \<and> (\<not> truthy (dict_get r ''decision'') \<longrightarrow> (\<exists>m. validate_review r = Inl (ValueError m)))"
  by (auto simp add: validate_review_flat)

text \<open>A Review with the decision \<^verbatim>\<open>approved\<close>, and a Review without a decision.\<close>

theorem review_decision_presence_only_witness:
  "validate_review approved_review = Inr ()
   \<and> \<not> truthy (dict_get [] ''decision'')
   \<and> (\<exists>m. validate_review [] = Inl (ValueError m))"
proof -
  have "isinstance_str (dict_get approved_review ''id'') \<and> truthy (dict_get approved_review ''id'')
      \<and> truthy (dict_get approved_review ''deliverable_id'')
      \<and> \<not> not_dict_or_falsy (dict_get approved_review ''reviewer'') ''id''
      \<and> truthy (dict_get approved_review ''decision'')"
    by (simp add: approved_review_def dict_get_def)
  moreover have "\<not> truthy (dict_get [] ''decision'')"
    by (simp add: dict_get_def)
  ultimately show ?thesis
    using review_decision_presence_only [of approved_review]
      review_decision_presence_only [of "[]"]
    by blast
qed

section \<open>The two spellings of the task reference\<close>

text \<open>
  Claim C9: for a Proposal without the key \<^verbatim>\<open>task_id\<close>, the test of the task reference
  passes whenever the key \<^verbatim>\<open>taskId\<close> holds a non-empty value: the validator never
  reports a missing task reference for it, and it accepts the Proposal exactly when the
  tests of the identifier, the proposer, the approach and the timeline pass.
\<close>

theorem taskId_spelling_accepted:
  assumes "\<not> dict_contains ''task_id'' p" and "truthy (dict_get p ''taskId'')"
  shows "validate_proposal p \<noteq> Inl (ValueError ''Proposal must reference a task'')
       \<and> (validate_proposal p = Inr () \<longleftrightarrow>
            isinstance_str (dict_get p ''id'') \<and> truthy (dict_get p ''id'')
            \<and> \<not> not_dict_or_falsy (dict_get p ''proposer'') ''id''
            \<and> (\<exists>s. dict_get p ''approach'' = PStr s \<and> 20 \<le> length s)
            \<and> \<not> not_dict_or_falsy (dict_get p ''timeline'') ''estimated_completion'')"
proof -
  have a: "(case dict_get_default p ''approach'' (PStr []) of PStr s \<Rightarrow> length s < 20 | _ \<Rightarrow> True)
         \<longleftrightarrow> \<not> (\<exists>s. dict_get p ''approach'' = PStr s \<and> 20 \<le> length s)"
    by (auto simp: dict_get_def dict_get_default_def split: option.splits pyval.splits)
  show ?thesis
    unfolding validate_proposal_flat a using assms(2) by auto
qed

text \<open>A Proposal with \<^verbatim>\<open>taskId\<close> only.\<close>

theorem taskId_spelling_accepted_witness:
  "\<not> dict_contains ''task_id'' camel_proposal
   \<and> truthy (dict_get camel_proposal ''taskId'')
   \<and> validate_proposal camel_proposal = Inr ()"
proof -
  have a: "\<not> dict_contains ''task_id'' camel_proposal"
    by (simp add: camel_proposal_def dict_contains_Cons dict_contains_Nil)
  have b: "truthy (dict_get camel_proposal ''taskId'')"
    by (simp add: camel_proposal_def dict_get_def)
  have "isinstance_str (dict_get camel_proposal ''id'') \<and> truthy (dict_get camel_proposal ''id'')
        \<and> \<not> not_dict_or_falsy (dict_get camel_proposal ''proposer'') ''id''
        \<and> (\<exists>s. dict_get camel_proposal ''approach'' = PStr s \<and> 20 \<le> length s)
        \<and> \<not> not_dict_or_falsy (dict_get camel_proposal ''timeline'') ''estimated_completion''"
    by (simp add: camel_proposal_def dict_get_def)
  with taskId_spelling_accepted [OF a b] a b show ?thesis
    by blast
qed


end
